theory Spec2Isabelle
  imports Main "HOL-Library.Sublist" "HOL-Library.Word"
begin

section \<open>Library functions used by main.go\<close>

text \<open>
  Go strings are byte sequences; they are modelled as \<^typ>\<open>string\<close>.  The functions of
  the Go standard library that main.go calls on strings are written out here with the
  behaviour the Go documentation gives them.
\<close>

text \<open>\<^verbatim>\<open>strings.Split(s, sep)\<close> for a separator of one byte: the substrings between the
  separators, one more than there are separators (so \<^verbatim>\<open>Split("", ":")\<close> is \<^verbatim>\<open>[""]\<close>).\<close>

fun strings_Split :: "string \<Rightarrow> char \<Rightarrow> string list" where
  "strings_Split [] sep = [[]]"
| "strings_Split (c # cs) sep =
     (if c = sep then [] # strings_Split cs sep
      else (case strings_Split cs sep of
              [] \<Rightarrow> [[c]]
            | p # ps \<Rightarrow> (c # p) # ps))"

text \<open>\<^verbatim>\<open>strings.Trim(s, cutset)\<close>: \<open>s\<close> with all leading and all trailing bytes that occur
  in \<open>cutset\<close> removed.\<close>

definition strings_Trim :: "string \<Rightarrow> string \<Rightarrow> string" where
  "strings_Trim s cutset =
     rev (dropWhile (\<lambda>c. c \<in> set cutset) (rev (dropWhile (\<lambda>c. c \<in> set cutset) s)))"

text \<open>\<^verbatim>\<open>strings.Join(elems, sep)\<close>.\<close>

fun strings_Join :: "string list \<Rightarrow> string \<Rightarrow> string" where
  "strings_Join [] sep = []"
| "strings_Join [x] sep = x"
| "strings_Join (x # y # ys) sep = x @ sep @ strings_Join (y # ys) sep"

text \<open>\<^verbatim>\<open>strings.HasPrefix(s, prefix)\<close>.\<close>

definition strings_HasPrefix :: "string \<Rightarrow> string \<Rightarrow> bool" where
  "strings_HasPrefix s p = prefix p s"

text \<open>The verb \<^verbatim>\<open>%d\<close> of \<^verbatim>\<open>fmt\<close>: decimal digits, with a minus sign for a negative
  number.\<close>

fun string_of_nat :: "nat \<Rightarrow> string" where
  "string_of_nat n =
     (if n < 10 then [''0123456789'' ! n]
      else string_of_nat (n div 10) @ [''0123456789'' ! (n mod 10)])"

declare string_of_nat.simps [simp del]

definition string_of_int :: "int \<Rightarrow> string" where
  "string_of_int i = (if i < 0 then CHR ''-'' # string_of_nat (nat (- i)) else string_of_nat (nat i))"

text \<open>The line feed that ends every line written to the console.\<close>

definition newline :: string where
  "newline = [CHR 0x0A]"

section \<open>extractDomain\<close>

text \<open>
  \<^verbatim>\<open>
  func extractDomain(userID string) string {
          parts := strings.Split(userID, ":")
          if len(parts) > 1 {
                  return parts[1] // Return the domain part after ":"
          }
          return ""
  }
  \<close>
\<close>

definition extractDomain :: "string \<Rightarrow> string" where
  "extractDomain userID =
     (let parts = strings_Split userID (CHR '':'')
      in if length parts > 1 then parts ! 1 else [])"

text \<open>What the specification says of \<open>extractDomain\<close>, in its own words: split on the first
  \<open>:\<close> and return the substring after it, the empty string when there is no \<open>:\<close>.  This
  definition follows the specification, not the code; it is what the code is compared with.\<close>

definition spec_extractDomain :: "string \<Rightarrow> string" where
  "spec_extractDomain participantID = drop 1 (dropWhile (\<lambda>c. c \<noteq> CHR '':'') participantID)"

text \<open>What the specification says is done to the target of an SRV record, in its own
  words: a trailing dot, if there is one, is stripped.  This definition too follows the
  specification, not the code.\<close>

definition spec_strip_trailing_dot :: "string \<Rightarrow> string" where
  "spec_strip_trailing_dot target =
     (if target \<noteq> [] \<and> last target = CHR ''.'' then butlast target else target)"

text \<open>
  \<^verbatim>\<open>net.LookupSRV\<close> checks the targets it returns: a record whose target is not a domain
  name in presentation format is removed, and an error is then returned with the records
  that are left.  Of a domain name, the theorem on the SRV step needs this much: it is the
  root \<open>.\<close>, or it has no dot at its start and no two dots at its end.
\<close>

definition wellformed_target :: "string \<Rightarrow> bool" where
  "wellformed_target target =
     (target = ''.'' \<or> (take 1 target \<noteq> ''.'' \<and> take 2 (rev target) \<noteq> ''..''))"

text \<open>The white space of JSON: space, tab, line feed, carriage return.\<close>

definition is_json_space :: "char \<Rightarrow> bool" where
  "is_json_space c = (c = CHR '' '' \<or> c = CHR 0x09 \<or> c = CHR 0x0A \<or> c = CHR 0x0D)"

section \<open>The outside world\<close>

text \<open>
  main.go talks to the network (\<^verbatim>\<open>net/http\<close>, \<^verbatim>\<open>net.LookupSRV\<close>), to a Matrix home
  server through the \<^verbatim>\<open>mautrix\<close> client, and to the console.  None of that code is part
  of the repository.  Every call that leaves the program is recorded as an \<open>event\<close>, and
  what the outside world answers is a parameter: a record of oracles, each of which may
  depend on the whole history of events up to the call, so that no assumption is made on
  how servers answer from one call to the next.
\<close>

text \<open>A Go \<^verbatim>\<open>error\<close> value, with the text that \<^verbatim>\<open>%v\<close> prints.\<close>

datatype error = Err (message: string)

text \<open>\<^verbatim>\<open>time.Duration\<close> counts nanoseconds; \<^verbatim>\<open>time.Second\<close> is \<open>10\<^sup>9\<close> of them.\<close>

definition Second :: int where
  "Second = 1000000000"

text \<open>The fields of \<^verbatim>\<open>http.Response\<close> that main.go reads.\<close>

record http_response =
  StatusCode :: int
  Body :: string

text \<open>The struct \<^verbatim>\<open>net.SRV\<close>; its three numbers are \<^verbatim>\<open>uint16\<close>.  main.go reads the
  target and the port.\<close>

record srv =
  Target :: string
  Port :: "16 word"
  Priority :: "16 word"
  Weight :: "16 word"

text \<open>The kinds of JSON value.\<close>

datatype json_kind = JObject | JArray | JString | JNumber | JBool | JNull

datatype event =
    HttpGet string int  \<comment> \<open>a GET of the URL by a client with this \<^verbatim>\<open>Timeout\<close> (0: none)\<close>
  | LookupSRV string string string  \<comment> \<open>\<^verbatim>\<open>net.LookupSRV(service, proto, name)\<close>\<close>
  | JoinedRooms  \<comment> \<open>\<^verbatim>\<open>client.JoinedRooms\<close>\<close>
  | JoinedMembers string  \<comment> \<open>\<^verbatim>\<open>client.JoinedMembers(roomID)\<close>\<close>
  | StateEvent string string  \<comment> \<open>\<^verbatim>\<open>client.StateEvent(roomID, eventType, "")\<close>\<close>
  | SendText string string  \<comment> \<open>\<^verbatim>\<open>client.SendText(roomID, text)\<close>\<close>
  | Print string  \<comment> \<open>text written to standard output\<close>
  | Sleep "64 word"  \<comment> \<open>\<^verbatim>\<open>time.Sleep\<close> of that many nanoseconds (an \<^verbatim>\<open>int64\<close>)\<close>

type_synonym history = "event list"

text \<open>
  The oracles.  \<open>http_get h url timeout\<close> is the result of \<^verbatim>\<open>Get(url)\<close> on a client
  with the given timeout after the events \<open>h\<close>: an error (no connection, timeout, ...) or a
  response.  \<open>lookup_srv\<close> gives the records and the error of \<^verbatim>\<open>net.LookupSRV\<close> (Go
  returns both).  \<open>decode_server body\<close> is the outcome of
  \<^verbatim>\<open>json.NewDecoder(body).Decode(&result)\<close> for the struct with the one field
  \<^verbatim>\<open>Server string `json:"m.server"`\<close>: the error, or the value of the field after the
  decoding.  \<open>json_scan body\<close> is what the decoder of \<^verbatim>\<open>encoding/json\<close> reads from the
  start of the body: a syntax error, or the kind of the first JSON value and the text
  that follows that value, which \<^verbatim>\<open>Decode\<close> does not read.  \<open>type_error kind\<close> is the
  \<^verbatim>\<open>UnmarshalTypeError\<close> for a value of that kind and a \<^verbatim>\<open>map[string]interface{}\<close>.
  \<open>joined_members\<close> gives the keys of the \<^verbatim>\<open>Joined\<close> map in
  the order in which the \<^verbatim>\<open>range\<close> loop visits them.  \<open>state_event\<close> gives the string
  field that the state event's content is decoded into.
\<close>

record world =
  http_get :: "history \<Rightarrow> string \<Rightarrow> int \<Rightarrow> error + http_response"
  lookup_srv :: "history \<Rightarrow> string \<Rightarrow> string \<Rightarrow> string \<Rightarrow> srv list \<times> error option"
  decode_server :: "string \<Rightarrow> error + string"
  json_scan :: "string \<Rightarrow> error + json_kind \<times> string"
  type_error :: "json_kind \<Rightarrow> error"
  joined_rooms :: "history \<Rightarrow> error + string list"
  joined_members :: "history \<Rightarrow> string \<Rightarrow> error + string list"
  state_event :: "history \<Rightarrow> string \<Rightarrow> string \<Rightarrow> error + string"
  send_text :: "history \<Rightarrow> string \<Rightarrow> string \<Rightarrow> error option"

text \<open>
  \<^verbatim>\<open>json.NewDecoder(body).Decode(&result)\<close> for a \<^verbatim>\<open>result\<close> of type
  \<^verbatim>\<open>map[string]interface{}\<close>, as \<^verbatim>\<open>encoding/json\<close> documents it: the first JSON value of
  the body is read; an object fills the map, the value \<^verbatim>\<open>null\<close> leaves the map as it is,
  and neither is an error; a value of another kind is a type error.
\<close>

definition decode_object :: "world \<Rightarrow> string \<Rightarrow> error option" where
  "decode_object w body =
     (case json_scan w body of
        Inl err \<Rightarrow> Some err
      | Inr (kind, rest) \<Rightarrow>
          if kind = JObject \<or> kind = JNull then None else Some (type_error w kind))"

text \<open>What the specification asks of the body of the answer to the probe, in its own
  words: the body is a JSON object.  That is, its first value is an object and nothing
  but white space follows.  This definition follows the specification, not the code.\<close>

definition spec_json_object :: "world \<Rightarrow> string \<Rightarrow> bool" where
  "spec_json_object w body =
     (case json_scan w body of
        Inl err \<Rightarrow> False
      | Inr (kind, rest) \<Rightarrow> kind = JObject \<and> list_all is_json_space rest)"

text \<open>The configuration file, \<^verbatim>\<open>type Config struct\<close>.\<close>

record Config =
  ServerName :: string
  Username :: string
  Password :: string
  LogRoom :: string
  Interval :: int

section \<open>The program\<close>

text \<open>
  Every function below takes the oracles and the history \<open>h\<close> of the events before the
  call, and returns its result together with the events it adds, in order.
\<close>

subsection \<open>resolveMatrixServer\<close>

definition wellknown_url :: "string \<Rightarrow> string" where
  "wellknown_url server = ''https://'' @ server @ ''/.well-known/matrix/server''"

text \<open>Steps 2 and 3 of \<^verbatim>\<open>resolveMatrixServer\<close> (lines 104 to 112), reached when step 1 has
  not returned.\<close>

definition resolveSRV :: "world \<Rightarrow> string \<Rightarrow> history \<Rightarrow> (error + string) \<times> event list" where
  "resolveSRV w server h =
     (case lookup_srv w h ''matrix'' ''tcp'' server of
        (srvRecords, err) \<Rightarrow>
          (if err = None \<and> length srvRecords > 0
           then (let srv = srvRecords ! 0
                 in Inr (strings_Trim (Target srv) ''.'' @ '':'' @ string_of_nat (unat (Port srv))))
           else Inr (server @ '':8448''),
           [LookupSRV ''matrix'' ''tcp'' server]))"

text \<open>
  \<^verbatim>\<open>
  func resolveMatrixServer(server string) (string, error) {
          url := fmt.Sprintf("https://%s/.well-known/matrix/server", server)
          resp, err := http.Get(url)
          if err == nil {
                  if resp.StatusCode == http.StatusOK {
                          err = json.NewDecoder(resp.Body).Decode(&result)
                          if err == nil && result.Server != "" {
                                  return result.Server, nil
  ...
  \<close>
  \<^verbatim>\<open>http.Get\<close> uses the default client, whose \<^verbatim>\<open>Timeout\<close> is 0; \<^verbatim>\<open>http.StatusOK\<close> is 200.
\<close>

definition resolveMatrixServer :: "world \<Rightarrow> string \<Rightarrow> history \<Rightarrow> (error + string) \<times> event list" where
  "resolveMatrixServer w server h =
     (let url = wellknown_url server;
          get = [HttpGet url 0];
          next = (case resolveSRV w server (h @ get) of (r, es) \<Rightarrow> (r, get @ es))
      in case http_get w h url 0 of
           Inl err \<Rightarrow> next
         | Inr resp \<Rightarrow>
             if StatusCode resp = 200
             then (case decode_server w (Body resp) of
                     Inl err \<Rightarrow> next
                   | Inr server' \<Rightarrow> if server' \<noteq> [] then (Inr server', get) else next)
             else next)"

subsection \<open>checkServerOnline and checkServer\<close>

definition version_url :: "string \<Rightarrow> string" where
  "version_url server = ''https://'' @ server @ ''/_matrix/federation/v1/version''"

text \<open>
  \<^verbatim>\<open>
  func checkServerOnline(server string) bool {
          url := fmt.Sprintf("https://%s/_matrix/federation/v1/version", server)
          client := &http.Client{ Timeout: 5 * time.Second }
          resp, err := client.Get(url)
          if err != nil { fmt.Printf("Failed to reach server %s: %v\n", server, err); return false }
          var result map[string]interface{}
          err = json.NewDecoder(resp.Body).Decode(&result)
          if err != nil { fmt.Printf("Invalid JSON response from server %s: %v\n", server, err); return false }
          return true
  }
  \<close>
\<close>

definition checkServerOnline :: "world \<Rightarrow> string \<Rightarrow> history \<Rightarrow> bool \<times> event list" where
  "checkServerOnline w server h =
     (let url = version_url server;
          get = [HttpGet url (5 * Second)]
      in case http_get w h url (5 * Second) of
           Inl err \<Rightarrow>
             (False, get @ [Print (''Failed to reach server '' @ server @ '': '' @ message err @ newline)])
         | Inr resp \<Rightarrow>
             (case decode_object w (Body resp) of
                Some err \<Rightarrow>
                  (False, get @ [Print (''Invalid JSON response from server '' @ server @ '': ''
                                        @ message err @ newline)])
              | None \<Rightarrow> (True, get)))"

text \<open>
  \<^verbatim>\<open>
  func checkServer(ctx context.Context, client *mautrix.Client, server string) string {
          matrixServer, err := resolveMatrixServer(server)
          if err != nil { return fmt.Sprintf("Failed (Delegation Failed: %v)", err) }
          if checkServerOnline(matrixServer) { return "OK" }
          return "Failed (Unreachable)"
  }
  \<close>
\<close>

definition checkServer :: "world \<Rightarrow> string \<Rightarrow> history \<Rightarrow> string \<times> event list" where
  "checkServer w server h =
     (case resolveMatrixServer w server h of
        (Inl err, es) \<Rightarrow> (''Failed (Delegation Failed: '' @ message err @ '')'', es)
      | (Inr matrixServer, es) \<Rightarrow>
          (case checkServerOnline w matrixServer (h @ es) of
             (online, es') \<Rightarrow> (if online then ''OK'' else ''Failed (Unreachable)'', es @ es')))"

subsection \<open>The room sweep\<close>

text \<open>
  \<^verbatim>\<open>
  func sendMessageToRoom(ctx, client, roomID id.RoomID, message string) error {
          _, err := client.SendText(ctx, roomID, message)
          return err
  }
  \<close>
\<close>

definition sendMessageToRoom :: "world \<Rightarrow> string \<Rightarrow> string \<Rightarrow> history \<Rightarrow> error option \<times> event list" where
  "sendMessageToRoom w roomID msg h = (send_text w h roomID msg, [SendText roomID msg])"

text \<open>\<^verbatim>\<open>getRoomDetails\<close> (lines 196 to 219): the title, then the canonical alias, each with
  its fallback.  \<^verbatim>\<open>event.StateRoomName\<close> is the event type \<^verbatim>\<open>m.room.name\<close>.\<close>

definition getRoomDetails :: "world \<Rightarrow> string \<Rightarrow> history \<Rightarrow> (string \<times> string) \<times> event list" where
  "getRoomDetails w roomID h =
     (let ev1 = [StateEvent roomID ''m.room.name''];
          roomName = (case state_event w h roomID ''m.room.name'' of
                        Inl err \<Rightarrow> ''(unknown title)''
                      | Inr name \<Rightarrow> if name = [] then ''(unknown title)'' else name);
          ev2 = [StateEvent roomID ''m.room.canonical_alias'']
      in case state_event w (h @ ev1) roomID ''m.room.canonical_alias'' of
           Inl err \<Rightarrow>
             ((roomID, roomName),
              ev1 @ ev2 @ [Print (''No canonical alias found for room '' @ roomID @ newline)])
         | Inr alias \<Rightarrow>
             if alias = []
             then ((roomID, roomName),
                   ev1 @ ev2 @ [Print (''No canonical alias found for room '' @ roomID @ newline)])
             else ((alias, roomName), ev1 @ ev2))"

text \<open>\<^verbatim>\<open>fmt.Sprintf("%s - %s ( %s )", roomAlias, roomTitle, roomID)\<close> (line 141).\<close>

definition roomDescription :: "string \<Rightarrow> string \<Rightarrow> string \<Rightarrow> string" where
  "roomDescription roomAlias roomTitle roomID =
     roomAlias @ '' - '' @ roomTitle @ '' ( '' @ roomID @ '' )''"

text \<open>\<^verbatim>\<open>fmt.Sprintf("%s - %s", server, status)\<close> (lines 160 and 164).\<close>

definition statusLine :: "string \<Rightarrow> string \<Rightarrow> string" where
  "statusLine server status = server @ '' - '' @ status"

text \<open>
  The body of the loop over the members (lines 156 to 165), for one member; the two
  slices \<^verbatim>\<open>serverStatus\<close> and \<^verbatim>\<open>failedServers\<close> are passed in and returned extended.
  \<^verbatim>\<open>
  server := extractDomain(string(userID))
  status := checkServer(ctx, client, server)
  serverStatus = append(serverStatus, fmt.Sprintf("%s - %s", server, status))
  if strings.HasPrefix(status, "Failed") {
          failedServers = append(failedServers, fmt.Sprintf("%s - %s", server, status))
  }
  \<close>
\<close>

definition checkMember ::
  "world \<Rightarrow> string \<Rightarrow> string list \<Rightarrow> string list \<Rightarrow> history \<Rightarrow> string list \<times> string list \<times> event list" where
  "checkMember w userID serverStatus failedServers h =
     (let server = extractDomain userID
      in case checkServer w server h of
           (status, es) \<Rightarrow>
             (serverStatus @ [statusLine server status],
              (if strings_HasPrefix status ''Failed''
               then failedServers @ [statusLine server status]
               else failedServers),
              es))"

text \<open>The loop \<^verbatim>\<open>for userID := range resp.Joined\<close> (lines 155 to 166), over the members in
  the order of the iteration.\<close>

fun checkMembers ::
  "world \<Rightarrow> string list \<Rightarrow> string list \<Rightarrow> string list \<Rightarrow> history \<Rightarrow> string list \<times> string list \<times> event list" where
  "checkMembers w [] serverStatus failedServers h = (serverStatus, failedServers, [])"
| "checkMembers w (userID # rest) serverStatus failedServers h =
     (case checkMember w userID serverStatus failedServers h of
        (serverStatus', failedServers', es) \<Rightarrow>
          (case checkMembers w rest serverStatus' failedServers' (h @ es) of
             (serverStatus'', failedServers'', es') \<Rightarrow> (serverStatus'', failedServers'', es @ es')))"

text \<open>The three texts built in lines 169, 174 and 178.\<close>

definition fullStatusMessage :: "string \<Rightarrow> string list \<Rightarrow> string" where
  "fullStatusMessage description serverStatus =
     ''Server statuses in room '' @ description @ '':'' @ newline @ strings_Join serverStatus newline"

definition failedStatusMessage :: "string \<Rightarrow> string list \<Rightarrow> string" where
  "failedStatusMessage description failedServers =
     ''Failed servers in room '' @ description @ '':'' @ newline @ strings_Join failedServers newline"

definition successMessage :: "string \<Rightarrow> string" where
  "successMessage description = ''All Servers in room '' @ description @ '' are OK''"

text \<open>
  Lines 168 to 180: the full list goes to the console, and one of two messages to the log
  room.
  \<^verbatim>\<open>
  fmt.Println(fullStatusMessage)
  if len(failedServers) > 0 {
          sendMessageToRoom(ctx, client, id.RoomID(config.LogRoom), failedStatusMessage)
  } else {
          sendMessageToRoom(ctx, client, id.RoomID(config.LogRoom), successMessage)
  }
  \<close>
\<close>

definition reportRoom ::
  "Config \<Rightarrow> world \<Rightarrow> string \<Rightarrow> string list \<Rightarrow> string list \<Rightarrow> history \<Rightarrow> event list" where
  "reportRoom config w description serverStatus failedServers h =
     (let out = [Print (fullStatusMessage description serverStatus @ newline)]
      in if length failedServers > 0
         then out @ snd (sendMessageToRoom w (LogRoom config)
                           (failedStatusMessage description failedServers) (h @ out))
         else out @ snd (sendMessageToRoom w (LogRoom config)
                           (successMessage description) (h @ out)))"

text \<open>
  The body of the loop over the joined rooms (lines 130 to 181), for one room.
  \<^verbatim>\<open>
  if id.RoomID(roomID) == id.RoomID(config.LogRoom) {
          fmt.Printf("Skipping log room: %s\n", config.LogRoom)
          continue
  }
  roomAlias, roomTitle := getRoomDetails(ctx, client, id.RoomID(roomID))
  roomDescription := fmt.Sprintf("%s - %s ( %s )", roomAlias, roomTitle, roomID)
  fmt.Println("Testing servers in room:", roomDescription)
  resp, err := client.JoinedMembers(ctx, id.RoomID(roomID))
  if err != nil {
          fmt.Printf("Failed to get joined members for room %s: %v\n", roomID, err)
          continue
  }
  \<close>
\<close>

definition sweepRoom :: "Config \<Rightarrow> world \<Rightarrow> string \<Rightarrow> history \<Rightarrow> event list" where
  "sweepRoom config w roomID h =
     (if roomID = LogRoom config
      then [Print (''Skipping log room: '' @ LogRoom config @ newline)]
      else
        (case getRoomDetails w roomID h of
           ((roomAlias, roomTitle), es1) \<Rightarrow>
             (let description = roomDescription roomAlias roomTitle roomID;
                  es2 = es1 @ [Print (''Testing servers in room: '' @ description @ newline)];
                  es3 = es2 @ [JoinedMembers roomID]
              in case joined_members w (h @ es2) roomID of
                   Inl err \<Rightarrow>
                     es3 @ [Print (''Failed to get joined members for room '' @ roomID @ '': ''
                                   @ message err @ newline)]
                 | Inr members \<Rightarrow>
                     (case checkMembers w members [] [] (h @ es3) of
                        (serverStatus, failedServers, es4) \<Rightarrow>
                          es3 @ es4 @
                          reportRoom config w description serverStatus failedServers
                            (h @ es3 @ es4)))))"

text \<open>The loop \<^verbatim>\<open>for _, roomID := range joinedRooms.JoinedRooms\<close>.\<close>

fun sweepRooms :: "Config \<Rightarrow> world \<Rightarrow> string list \<Rightarrow> history \<Rightarrow> event list" where
  "sweepRooms config w [] h = []"
| "sweepRooms config w (roomID # rest) h =
     (let es = sweepRoom config w roomID h
      in es @ sweepRooms config w rest (h @ es))"

text \<open>\<^verbatim>\<open>time.Duration(config.Interval) * time.Second\<close>, a product of \<^verbatim>\<open>int64\<close> values.\<close>

definition sleepInterval :: "Config \<Rightarrow> 64 word" where
  "sleepInterval config = word_of_int (Interval config) * 1000000000"

text \<open>One turn of the endless loop of \<^verbatim>\<open>runServerCheckLoop\<close> (lines 119 to 187).\<close>

definition sweepOnce :: "Config \<Rightarrow> world \<Rightarrow> history \<Rightarrow> event list" where
  "sweepOnce config w h =
     (let es1 = [Print (''Checking server statuses...'' @ newline)]
      in case joined_rooms w (h @ es1) of
           Inl err \<Rightarrow>
             es1 @ [JoinedRooms,
                    Print (''Failed to fetch joined rooms: '' @ message err @ newline),
                    Sleep (sleepInterval config)]
         | Inr rooms \<Rightarrow>
             (let es2 = es1 @ [JoinedRooms] @ sweepRooms config w rooms (h @ es1 @ [JoinedRooms])
              in es2 @ [Print (''Waiting for '' @ string_of_int (Interval config) @ '' seconds'' @ newline),
                        Sleep (sleepInterval config)]))"

text \<open>\<^verbatim>\<open>runServerCheckLoop\<close> never returns; its first \<open>n\<close> turns add these events.\<close>

fun runServerCheckLoop :: "nat \<Rightarrow> Config \<Rightarrow> world \<Rightarrow> history \<Rightarrow> event list" where
  "runServerCheckLoop 0 config w h = []"
| "runServerCheckLoop (Suc n) config w h =
     (let es = sweepOnce config w h
      in es @ runServerCheckLoop n config w (h @ es))"

subsection \<open>Reading a list of events\<close>

text \<open>The messages sent to rooms, as pairs of room and text, in order.\<close>

fun sent :: "event list \<Rightarrow> (string \<times> string) list" where
  "sent [] = []"
| "sent (SendText roomID msg # es) = (roomID, msg) # sent es"
| "sent (e # es) = sent es"

text \<open>The calls that go to the network: HTTP requests and DNS lookups.\<close>

fun is_network :: "event \<Rightarrow> bool" where
  "is_network (HttpGet url timeout) = True"
| "is_network (LookupSRV service proto name) = True"
| "is_network e = False"

text \<open>The calls to the Matrix client that name a given room as the one to read.\<close>

fun reads_room :: "string \<Rightarrow> event \<Rightarrow> bool" where
  "reads_room r (JoinedMembers roomID) = (roomID = r)"
| "reads_room r (StateEvent roomID t) = (roomID = r)"
| "reads_room r e = False"

text \<open>The calls to the Matrix client.\<close>

fun is_matrix_call :: "event \<Rightarrow> bool" where
  "is_matrix_call JoinedRooms = True"
| "is_matrix_call (JoinedMembers roomID) = True"
| "is_matrix_call (StateEvent roomID t) = True"
| "is_matrix_call (SendText roomID msg) = True"
| "is_matrix_call e = False"

section \<open>Concrete worlds\<close>

text \<open>
  Worlds on which the theorems below are evaluated.  In all of them the answers do not
  depend on the history.  A body is an opaque text for the program, which only hands it
  to the two decoders; here the decoder for the well-known document accepts the one body
  \<open>wellknown_body\<close> and reads \<open>matrix.example.org:443\<close> from it, and the scanner reads
  an object from a body that starts with a brace (the text after \<open>{}\<close> is left over) and
  the value \<open>null\<close> from a body that starts with it.
\<close>

definition wellknown_body :: string where
  "wellknown_body = ''{m.server: matrix.example.org:443}''"

definition sample_world ::
  "(string \<Rightarrow> error + http_response) \<Rightarrow> srv list \<times> error option \<Rightarrow> string list \<Rightarrow> world" where
  "sample_world web dns members =
     \<lparr> http_get = (\<lambda>h url timeout. web url),
       lookup_srv = (\<lambda>h service proto name. dns),
       decode_server = (\<lambda>body. if body = wellknown_body then Inr ''matrix.example.org:443''
                                else Inl (Err ''invalid character'')),
       json_scan = (\<lambda>body. if take 2 body = ''{}'' then Inr (JObject, drop 2 body)
                            else if take 1 body = ''{'' then Inr (JObject, [])
                            else if take 4 body = ''null'' then Inr (JNull, drop 4 body)
                            else Inl (Err ''invalid character'')),
       type_error = (\<lambda>kind. Err ''json: cannot unmarshal''),
       joined_rooms = (\<lambda>h. Inr [''!log:x'', ''!a:x'']),
       joined_members = (\<lambda>h roomID. Inr members),
       state_event = (\<lambda>h roomID eventType. Inl (Err ''M_NOT_FOUND'')),
       send_text = (\<lambda>h roomID msg. None) \<rparr>"

text \<open>No server answers and the DNS has no record.\<close>

definition down_web :: "string \<Rightarrow> error + http_response" where
  "down_web url = Inl (Err ''connection refused'')"

definition no_dns :: "srv list \<times> error option" where
  "no_dns = ([], Some (Err ''no such host''))"

text \<open>The well-known document of example.org is served with status 200, or with status
  201; nothing else answers.\<close>

definition wellknown_web :: "int \<Rightarrow> string \<Rightarrow> error + http_response" where
  "wellknown_web status url =
     (if url = ''https://example.org/.well-known/matrix/server''
      then Inr \<lparr> StatusCode = status, Body = wellknown_body \<rparr>
      else Inl (Err ''connection refused''))"

text \<open>The answer of a DNS server to the SRV query, in the order in which the server
  gives the records: the record of priority 20 comes before the record of priority 10.\<close>

definition priority_answer :: "srv list" where
  "priority_answer =
     [\<lparr> Target = ''backup.example.org.'', Port = 443, Priority = 20, Weight = 0 \<rparr>,
      \<lparr> Target = ''matrix.example.org.'', Port = 8448, Priority = 10, Weight = 0 \<rparr>]"

text \<open>What \<^verbatim>\<open>net.LookupSRV\<close> returns for that answer: the records sorted by priority,
  and no error.\<close>

definition sorted_dns :: "srv list \<times> error option" where
  "sorted_dns = (sort_key (\<lambda>r. unat (Priority r)) priority_answer, None)"

text \<open>What \<^verbatim>\<open>net.LookupSRV\<close> returns when the answer of the server held, next to this
  record, a record whose target is not a domain name: the record that is left, and an
  error.\<close>

definition filtered_dns :: "srv list \<times> error option" where
  "filtered_dns =
     ([\<lparr> Target = ''matrix.example.org.'', Port = 8448, Priority = 10, Weight = 0 \<rparr>],
      Some (Err ''DNS response contained records which contain invalid names''))"

text \<open>The version endpoint of good.org:8448 answers 200 with an object; that of
  gone.org:8448 answers 404 with an object; nothing else answers.\<close>

definition federation_web :: "string \<Rightarrow> error + http_response" where
  "federation_web url =
     (if url = ''https://good.org:8448/_matrix/federation/v1/version''
      then Inr \<lparr> StatusCode = 200, Body = ''{}'' \<rparr>
      else if url = ''https://gone.org:8448/_matrix/federation/v1/version''
      then Inr \<lparr> StatusCode = 404, Body = ''{errcode: M_NOT_FOUND}'' \<rparr>
      else Inl (Err ''connection refused''))"

text \<open>The version endpoint of null.org:8448 answers 200 with the body \<open>null\<close>; that of
  more.org:8448 answers 200 with an empty object followed by other text.\<close>

definition odd_web :: "string \<Rightarrow> error + http_response" where
  "odd_web url =
     (if url = ''https://null.org:8448/_matrix/federation/v1/version''
      then Inr \<lparr> StatusCode = 200, Body = ''null'' \<rparr>
      else if url = ''https://more.org:8448/_matrix/federation/v1/version''
      then Inr \<lparr> StatusCode = 200, Body = ''{} trailing garbage'' \<rparr>
      else Inl (Err ''connection refused''))"

definition sample_config :: Config where
  "sample_config =
     \<lparr> ServerName = ''https://x'', Username = ''@bot:x'', Password = ''secret'',
       LogRoom = ''!log:x'', Interval = 60 \<rparr>"

section \<open>Properties of the string functions\<close>

lemma Split_nonempty: "strings_Split s sep \<noteq> []"
  by (induction s) (auto split: list.splits)

lemma Split_hd: "hd (strings_Split s sep) = takeWhile (\<lambda>c. c \<noteq> sep) s"
  by (induction s) (auto split: list.splits simp: Split_nonempty)

lemma Split_tl:
  "tl (strings_Split s sep) =
     (if sep \<in> set s then strings_Split (drop 1 (dropWhile (\<lambda>c. c \<noteq> sep) s)) sep else [])"
  by (induction s) (auto split: list.splits simp: Split_nonempty)

lemma dropWhile_no_sep: "sep \<notin> set s \<Longrightarrow> dropWhile (\<lambda>c. c \<noteq> sep) s = []"
  by (induction s) auto

text \<open>What \<open>extractDomain\<close> computes, for every input: of the text after the first \<open>:\<close>,
  the part before the next \<open>:\<close>.\<close>

lemma extractDomain_char:
  "extractDomain u = takeWhile (\<lambda>c. c \<noteq> CHR '':'') (spec_extractDomain u)"
proof (cases "CHR '':'' \<in> set u")
  case True
  obtain p ps where sp: "strings_Split u (CHR '':'') = p # ps"
    using Split_nonempty[of u "CHR '':''"] by (cases "strings_Split u (CHR '':'')") auto
  have ps: "strings_Split (spec_extractDomain u) (CHR '':'') = ps"
    using Split_tl[of u "CHR '':''"] sp True by (simp add: spec_extractDomain_def)
  have "ps \<noteq> []"
    using Split_nonempty[of "spec_extractDomain u" "CHR '':''"] ps by simp
  then obtain q qs where q: "ps = q # qs"
    by (cases ps) auto
  have "hd ps = takeWhile (\<lambda>c. c \<noteq> CHR '':'') (spec_extractDomain u)"
    using Split_hd[of "spec_extractDomain u" "CHR '':''"] by (simp only: ps)
  then show ?thesis
    by (simp add: extractDomain_def sp q)
next
  case False
  have t: "tl (strings_Split u (CHR '':'')) = []"
    using Split_tl[of u "CHR '':''"] False by simp
  have d: "spec_extractDomain u = []"
    using False by (simp add: spec_extractDomain_def dropWhile_no_sep)
  obtain p ps where sp: "strings_Split u (CHR '':'') = p # ps"
    using Split_nonempty[of u "CHR '':''"] by (cases "strings_Split u (CHR '':'')") auto
  with t have "ps = []" by simp
  with sp d show ?thesis
    by (simp add: extractDomain_def)
qed

lemma extractDomain_no_colon: "CHR '':'' \<notin> set u \<Longrightarrow> extractDomain u = []"
  by (simp add: extractDomain_char spec_extractDomain_def dropWhile_no_sep)

lemma extractDomain_one_colon:
  "CHR '':'' \<notin> set (spec_extractDomain u) \<Longrightarrow> extractDomain u = spec_extractDomain u"
  by (auto simp: extractDomain_char takeWhile_eq_all_conv)

lemma extractDomain_examples:
  "extractDomain ''alice:example.org'' = ''example.org''" "extractDomain ''alice'' = ''''"
  by (simp_all add: extractDomain_def)

text \<open>On a target that \<^verbatim>\<open>net.LookupSRV\<close> can return without error, \<^verbatim>\<open>strings.Trim\<close>
  with the cutset \<open>.\<close> does what the specification says: it strips the trailing dot.\<close>

lemma Trim_wellformed_target:
  assumes "wellformed_target t"
  shows "strings_Trim t ''.'' = spec_strip_trailing_dot t"
proof (cases "t = ''.''")
  case True
  then show ?thesis
    by (simp add: strings_Trim_def spec_strip_trailing_dot_def)
next
  case False
  with assms have lead: "take 1 t \<noteq> ''.''" and trail: "take 2 (rev t) \<noteq> ''..''"
    by (simp_all add: wellformed_target_def)
  have front: "dropWhile (\<lambda>c. c = CHR ''.'') t = t"
    using lead by (cases t) auto
  show ?thesis
  proof (cases "t \<noteq> [] \<and> last t = CHR ''.''")
    case True
    then obtain c cs where r: "rev t = c # cs"
      by (cases "rev t") auto
    with True have c: "c = CHR ''.''"
      by (metis last_rev list.sel(1) rev_rev_ident hd_rev)
    have cs: "cs \<noteq> []"
    proof
      assume "cs = []"
      with r c have "t = ''.''"
        by (metis rev_rev_ident rev_singleton_conv)
      with False show False by simp
    qed
    then obtain d ds where d: "cs = d # ds"
      by (cases cs) auto
    have "d \<noteq> CHR ''.''"
      using trail r c d by auto
    then have "dropWhile (\<lambda>c. c = CHR ''.'') (rev t) = cs"
      by (simp add: r c d)
    moreover have "rev cs = butlast t"
      using r by (metis butlast_rev list.sel(3) rev_rev_ident)
    ultimately show ?thesis
      using True by (simp add: strings_Trim_def spec_strip_trailing_dot_def front)
  next
    case False
    then have "dropWhile (\<lambda>c. c = CHR ''.'') (rev t) = rev t"
      by (cases "rev t") (auto simp: last_rev hd_rev)
    then show ?thesis
      using False by (auto simp: strings_Trim_def spec_strip_trailing_dot_def front)
  qed
qed

section \<open>Properties of the resolver and the probe\<close>

lemma resolveSRV_events: "snd (resolveSRV w d h) = [LookupSRV ''matrix'' ''tcp'' d]"
  by (simp add: resolveSRV_def split: prod.splits)

lemma resolveSRV_Inr: "\<exists>t. fst (resolveSRV w d h) = Inr t"
  by (simp add: resolveSRV_def Let_def split: prod.splits)

lemma resolveMatrixServer_Inr: "\<exists>t es. resolveMatrixServer w d h = (Inr t, es)"
proof -
  obtain t where "fst (resolveSRV w d (h @ [HttpGet (wellknown_url d) 0])) = Inr t"
    using resolveSRV_Inr by blast
  then show ?thesis
    by (auto simp: resolveMatrixServer_def Let_def split: sum.splits prod.splits)
qed

lemma resolveMatrixServer_fallthrough:
  assumes "case http_get w h (wellknown_url d) 0 of
             Inl e \<Rightarrow> True
           | Inr resp \<Rightarrow> StatusCode resp \<noteq> 200 \<or>
                (case decode_server w (Body resp) of Inl e \<Rightarrow> True | Inr s \<Rightarrow> s = [])"
  shows "resolveMatrixServer w d h =
           (fst (resolveSRV w d (h @ [HttpGet (wellknown_url d) 0])),
            [HttpGet (wellknown_url d) 0, LookupSRV ''matrix'' ''tcp'' d])"
  using assms resolveSRV_events[of w d "h @ [HttpGet (wellknown_url d) 0]"]
  by (auto simp: resolveMatrixServer_def Let_def split: sum.splits prod.splits)

lemma checkServerOnline_cases:
  "checkServerOnline w t h = (True, [HttpGet (version_url t) (5 * Second)]) \<or>
   (\<exists>text. checkServerOnline w t h = (False, [HttpGet (version_url t) (5 * Second), Print text]))"
  by (simp add: checkServerOnline_def Let_def split: sum.splits option.splits)

lemma checkServer_cases:
  "fst (checkServer w d h) = ''OK'' \<or> fst (checkServer w d h) = ''Failed (Unreachable)''"
proof -
  obtain t es where r: "resolveMatrixServer w d h = (Inr t, es)"
    using resolveMatrixServer_Inr by blast
  then show ?thesis
    by (cases "checkServerOnline w t (h @ es)") (simp add: checkServer_def)
qed

section \<open>Properties of the sweep\<close>

lemma sent_append: "sent (xs @ ys) = sent xs @ sent ys"
  by (induction xs rule: sent.induct) auto

lemma no_matrix_call_sent: "filter is_matrix_call es = [] \<Longrightarrow> sent es = []"
  by (induction es rule: sent.induct) (auto split: if_splits)

lemma no_matrix_call_reads: "filter is_matrix_call es = [] \<Longrightarrow> filter (reads_room r) es = []"
proof (induction es)
  case Nil
  then show ?case by simp
next
  case (Cons e es)
  then show ?case by (cases e) (auto split: if_splits)
qed

lemma resolveMatrixServer_events:
  "snd (resolveMatrixServer w d h) = [HttpGet (wellknown_url d) 0] \<or>
   snd (resolveMatrixServer w d h) = [HttpGet (wellknown_url d) 0, LookupSRV ''matrix'' ''tcp'' d]"
  using resolveSRV_events[of w d "h @ [HttpGet (wellknown_url d) 0]"]
  by (auto simp: resolveMatrixServer_def Let_def split: sum.splits prod.splits)

lemma checkServer_events:
  "\<exists>es t. resolveMatrixServer w d h = (Inr t, es) \<and>
      snd (checkServer w d h) = es @ snd (checkServerOnline w t (h @ es))"
proof -
  obtain t es where r: "resolveMatrixServer w d h = (Inr t, es)"
    using resolveMatrixServer_Inr by blast
  then show ?thesis
    by (cases "checkServerOnline w t (h @ es)") (simp add: checkServer_def)
qed

lemma checkServer_no_matrix_call: "filter is_matrix_call (snd (checkServer w d h)) = []"
proof -
  obtain es t where r: "resolveMatrixServer w d h = (Inr t, es)"
    and c: "snd (checkServer w d h) = es @ snd (checkServerOnline w t (h @ es))"
    using checkServer_events[of w d h] by blast
  have "filter is_matrix_call es = []"
    using resolveMatrixServer_events[of w d h] r by auto
  moreover have "filter is_matrix_call (snd (checkServerOnline w t (h @ es))) = []"
    using checkServerOnline_cases[of w t "h @ es"] by auto
  ultimately show ?thesis
    by (simp add: c)
qed

lemma checkMember_eq:
  "checkMember w u ss fs h =
     (ss @ [statusLine (extractDomain u) (fst (checkServer w (extractDomain u) h))],
      (if fst (checkServer w (extractDomain u) h) = ''OK'' then fs
       else fs @ [statusLine (extractDomain u) (fst (checkServer w (extractDomain u) h))]),
      snd (checkServer w (extractDomain u) h))"
  using checkServer_cases[of w "extractDomain u" h]
  by (auto simp: checkMember_def Let_def strings_HasPrefix_def split: prod.splits)

lemma checkMembers_results:
  "\<exists>results es.
      checkMembers w members ss fs h =
        (ss @ map (\<lambda>(d, s). statusLine d s) results,
         fs @ map (\<lambda>(d, s). statusLine d s) (filter (\<lambda>(d, s). s \<noteq> ''OK'') results),
         es) \<and>
      map fst results = map extractDomain members \<and>
      (\<forall>(d, s) \<in> set results. s = ''OK'' \<or> s = ''Failed (Unreachable)'') \<and>
      filter is_matrix_call es = []"
proof (induction members arbitrary: ss fs h)
  case Nil
  show ?case by simp
next
  case (Cons u us)
  let ?d = "extractDomain u"
  let ?s = "fst (checkServer w ?d h)"
  let ?es = "snd (checkServer w ?d h)"
  let ?ss = "ss @ [statusLine ?d ?s]"
  let ?fs = "if ?s = ''OK'' then fs else fs @ [statusLine ?d ?s]"
  from Cons.IH[of ?ss ?fs "h @ ?es"]
  obtain results es where
    r: "checkMembers w us ?ss ?fs (h @ ?es) =
        (?ss @ map (\<lambda>(d, s). statusLine d s) results,
         ?fs @ map (\<lambda>(d, s). statusLine d s) (filter (\<lambda>(d, s). s \<noteq> ''OK'') results),
         es)"
    and f: "map fst results = map extractDomain us"
    and o: "\<forall>(d, s) \<in> set results. s = ''OK'' \<or> s = ''Failed (Unreachable)''"
    and m: "filter is_matrix_call es = []"
    by blast
  have "checkMembers w (u # us) ss fs h =
        (ss @ map (\<lambda>(d, s). statusLine d s) ((?d, ?s) # results),
         fs @ map (\<lambda>(d, s). statusLine d s) (filter (\<lambda>(d, s). s \<noteq> ''OK'') ((?d, ?s) # results)),
         ?es @ es)"
    by (simp add: checkMember_eq r)
  moreover have "map fst ((?d, ?s) # results) = map extractDomain (u # us)"
    by (simp add: f)
  moreover have "\<forall>(d, s) \<in> set ((?d, ?s) # results). s = ''OK'' \<or> s = ''Failed (Unreachable)''"
    using o checkServer_cases[of w ?d h] by auto
  moreover have "filter is_matrix_call (?es @ es) = []"
    by (simp add: m checkServer_no_matrix_call)
  ultimately show ?case
    by blast
qed

lemma getRoomDetails_events:
  "sent (snd (getRoomDetails w r h)) = [] \<and>
   (r' \<noteq> r \<longrightarrow> filter (reads_room r') (snd (getRoomDetails w r h)) = [])"
  by (auto simp: getRoomDetails_def Let_def split: sum.splits)

lemma sweepRoom_sent_le: "length (sent (sweepRoom config w r h)) \<le> (if r = LogRoom config then 0 else 1)"
proof (cases "r = LogRoom config")
  case True
  then show ?thesis by (simp add: sweepRoom_def)
next
  case False
  obtain a t es1 where g: "getRoomDetails w r h = ((a, t), es1)"
    by (cases "getRoomDetails w r h") auto
  have s1: "sent es1 = []"
    using getRoomDetails_events[of w r h] g by simp
  let ?es2 = "es1 @ [Print (''Testing servers in room: '' @ roomDescription a t r @ newline)]"
  show ?thesis
  proof (cases "joined_members w (h @ ?es2) r")
    case (Inl e)
    with False g s1 show ?thesis
      by (simp add: sweepRoom_def Let_def sent_append)
  next
    case (Inr members)
    obtain results es where
      c: "checkMembers w members [] [] (h @ ?es2 @ [JoinedMembers r]) =
            (map (\<lambda>(d, s). statusLine d s) results,
             map (\<lambda>(d, s). statusLine d s) (filter (\<lambda>(d, s). s \<noteq> ''OK'') results), es)"
      and m: "filter is_matrix_call es = []"
      using checkMembers_results[of w members "[]" "[]" "h @ ?es2 @ [JoinedMembers r]"] by auto
    have "sent es = []"
      using m by (rule no_matrix_call_sent)
    with False g s1 Inr c show ?thesis
      by (simp add: sweepRoom_def Let_def sent_append reportRoom_def sendMessageToRoom_def)
  qed
qed

lemma sweepRoom_reads: "filter (reads_room (LogRoom config)) (sweepRoom config w r h) = []"
proof (cases "r = LogRoom config")
  case True
  then show ?thesis by (simp add: sweepRoom_def)
next
  case False
  obtain a t es1 where g: "getRoomDetails w r h = ((a, t), es1)"
    by (cases "getRoomDetails w r h") auto
  have s1: "filter (reads_room (LogRoom config)) es1 = []"
    using getRoomDetails_events[of w r h "LogRoom config"] g False by simp
  let ?es2 = "es1 @ [Print (''Testing servers in room: '' @ roomDescription a t r @ newline)]"
  show ?thesis
  proof (cases "joined_members w (h @ ?es2) r")
    case (Inl e)
    with False g s1 show ?thesis
      by (simp add: sweepRoom_def Let_def)
  next
    case (Inr members)
    obtain results es where
      c: "checkMembers w members [] [] (h @ ?es2 @ [JoinedMembers r]) =
            (map (\<lambda>(d, s). statusLine d s) results,
             map (\<lambda>(d, s). statusLine d s) (filter (\<lambda>(d, s). s \<noteq> ''OK'') results), es)"
      and m: "filter is_matrix_call es = []"
      using checkMembers_results[of w members "[]" "[]" "h @ ?es2 @ [JoinedMembers r]"] by auto
    have "filter (reads_room (LogRoom config)) es = []"
      using m by (rule no_matrix_call_reads)
    with False g s1 Inr c show ?thesis
      by (simp add: sweepRoom_def Let_def reportRoom_def sendMessageToRoom_def)
  qed
qed

lemma sweepRooms_reads: "filter (reads_room (LogRoom config)) (sweepRooms config w rooms h) = []"
  by (induction rooms arbitrary: h) (simp_all add: Let_def sweepRoom_reads)

lemma sweepRooms_sent_le:
  "length (sent (sweepRooms config w rooms h)) \<le> length (filter (\<lambda>r. r \<noteq> LogRoom config) rooms)"
proof (induction rooms arbitrary: h)
  case Nil
  show ?case by simp
next
  case (Cons r rs)
  show ?case
    using sweepRoom_sent_le[of config w r h] Cons.IH[of "h @ sweepRoom config w r h"]
    by (auto simp: Let_def sent_append split: if_splits)
qed

lemma checkMembers_length:
  "length (fst (checkMembers w members ss fs h)) = length ss + length members"
proof -
  obtain results es where
    c: "checkMembers w members ss fs h =
          (ss @ map (\<lambda>(d, s). statusLine d s) results,
           fs @ map (\<lambda>(d, s). statusLine d s) (filter (\<lambda>(d, s). s \<noteq> ''OK'') results), es)"
    and f: "map fst results = map extractDomain members"
    using checkMembers_results[of w members ss fs h] by auto
  have "length results = length members"
    using f by (metis length_map)
  then show ?thesis
    by (simp add: c)
qed

lemma checkServer_first_events:
  "\<exists>rest target. snd (checkServer w d h) = HttpGet (wellknown_url d) 0 # rest \<and>
      HttpGet (version_url target) (5 * Second) \<in> set rest"
proof -
  obtain es t where r: "resolveMatrixServer w d h = (Inr t, es)"
    and c: "snd (checkServer w d h) = es @ snd (checkServerOnline w t (h @ es))"
    using checkServer_events[of w d h] by blast
  have "\<exists>tl. es = HttpGet (wellknown_url d) 0 # tl"
    using resolveMatrixServer_events[of w d h] r by auto
  then obtain tl where e: "es = HttpGet (wellknown_url d) 0 # tl"
    by blast
  have "HttpGet (version_url t) (5 * Second) \<in> set (snd (checkServerOnline w t (h @ es)))"
    using checkServerOnline_cases[of w t "h @ es"] by auto
  then show ?thesis
    using c e by auto
qed

section \<open>The program on the concrete worlds\<close>

lemma sample_joined_members: "joined_members (sample_world web dns ms) h r = Inr ms"
  by (simp add: sample_world_def)

lemma down_checkServer:
  "checkServer (sample_world down_web no_dns ms) d h =
     (''Failed (Unreachable)'',
      [HttpGet (''https://'' @ d @ ''/.well-known/matrix/server'') 0,
       LookupSRV ''matrix'' ''tcp'' d,
       HttpGet (''https://'' @ d @ '':8448/_matrix/federation/v1/version'') 5000000000,
       Print (''Failed to reach server '' @ d @ '':8448: connection refused'' @ newline)])"
  by (simp add: checkServer_def resolveMatrixServer_def resolveSRV_def checkServerOnline_def
      wellknown_url_def version_url_def Second_def sample_world_def down_web_def no_dns_def Let_def)

lemma federation_checkServer_good:
  "checkServer (sample_world federation_web no_dns ms) ''good.org'' h =
     (''OK'',
      [HttpGet ''https://good.org/.well-known/matrix/server'' 0,
       LookupSRV ''matrix'' ''tcp'' ''good.org'',
       HttpGet ''https://good.org:8448/_matrix/federation/v1/version'' 5000000000])"
  by (simp add: checkServer_def resolveMatrixServer_def resolveSRV_def checkServerOnline_def
      decode_object_def wellknown_url_def version_url_def Second_def sample_world_def
      federation_web_def no_dns_def Let_def)

lemma federation_checkServer_bad:
  "checkServer (sample_world federation_web no_dns ms) ''bad.org'' h =
     (''Failed (Unreachable)'',
      [HttpGet ''https://bad.org/.well-known/matrix/server'' 0,
       LookupSRV ''matrix'' ''tcp'' ''bad.org'',
       HttpGet ''https://bad.org:8448/_matrix/federation/v1/version'' 5000000000,
       Print (''Failed to reach server bad.org:8448: connection refused'' @ newline)])"
  by (simp add: checkServer_def resolveMatrixServer_def resolveSRV_def checkServerOnline_def
      decode_object_def wellknown_url_def version_url_def Second_def sample_world_def
      federation_web_def no_dns_def Let_def)

lemma sample_getRoomDetails:
  "getRoomDetails (sample_world web dns ms) r h =
     ((r, ''(unknown title)''),
      [StateEvent r ''m.room.name'', StateEvent r ''m.room.canonical_alias'',
       Print (''No canonical alias found for room '' @ r @ newline)])"
  by (simp add: getRoomDetails_def sample_world_def Let_def)

section \<open>The claims\<close>

text \<open>
  C4.  The specification has \<open>extractDomain\<close> return the entire text after the first \<open>:\<close>,
  so that an identifier with more than one \<open>:\<close> yields everything after the first one.
  The code indexes the result of \<^verbatim>\<open>strings.Split\<close> at 1 and so stops at the second \<open>:\<close>.
  On the user identifier \<open>@alice:example.org:8448\<close>, whose server name carries a port,
  the code returns \<open>example.org\<close> where the specification gives \<open>example.org:8448\<close>.
\<close>

theorem extractDomain_stops_at_second_colon:
  "extractDomain ''@alice:example.org:8448'' = ''example.org'' \<and>
   spec_extractDomain ''@alice:example.org:8448'' = ''example.org:8448''"
  by (simp add: extractDomain_def spec_extractDomain_def)

text \<open>
  C1.  When the GET of \<open>https://{domain}/.well-known/matrix/server\<close> is answered with
  status 200 and the body decodes without error to a non-empty \<open>m.server\<close>, then
  \<open>resolveMatrixServer\<close> returns exactly that text, and the request is the only event: no
  SRV lookup is made and the default is not used.  The code tests the status against
  \<^verbatim>\<open>http.StatusOK\<close>, so the hypothesis is status 200 and not any status of the success
  class.
\<close>

theorem resolveMatrixServer_wellknown:
  assumes "http_get w h (''https://'' @ domain @ ''/.well-known/matrix/server'') 0 = Inr resp"
    and "StatusCode resp = 200"
    and "decode_server w (Body resp) = Inr s"
    and "s \<noteq> []"
  shows "resolveMatrixServer w domain h =
           (Inr s, [HttpGet (''https://'' @ domain @ ''/.well-known/matrix/server'') 0])"
  using assms by (simp add: resolveMatrixServer_def wellknown_url_def)

theorem resolveMatrixServer_wellknown_witness:
  "http_get (sample_world (wellknown_web 200) no_dns []) [] ''https://example.org/.well-known/matrix/server'' 0
     = Inr \<lparr> StatusCode = 200, Body = wellknown_body \<rparr> \<and>
   decode_server (sample_world (wellknown_web 200) no_dns []) wellknown_body = Inr ''matrix.example.org:443'' \<and>
   resolveMatrixServer (sample_world (wellknown_web 200) no_dns []) ''example.org'' [] =
     (Inr ''matrix.example.org:443'', [HttpGet ''https://example.org/.well-known/matrix/server'' 0])"
  using resolveMatrixServer_wellknown [of "sample_world (wellknown_web 200) no_dns []" "[]"
      "''example.org''" "\<lparr> StatusCode = 200, Body = wellknown_body \<rparr>" "''matrix.example.org:443''"]
  by (simp add: sample_world_def wellknown_web_def)

text \<open>
  The claim C1 as it is written speaks of a success status.  A document served with status
  201, a status of the success class, is not used: the code goes on to the SRV lookup and
  here ends with the default.
\<close>

theorem resolveMatrixServer_status_201_counterexample:
  "http_get (sample_world (wellknown_web 201) no_dns []) [] ''https://example.org/.well-known/matrix/server'' 0
     = Inr \<lparr> StatusCode = 201, Body = wellknown_body \<rparr> \<and>
   decode_server (sample_world (wellknown_web 201) no_dns []) wellknown_body = Inr ''matrix.example.org:443'' \<and>
   resolveMatrixServer (sample_world (wellknown_web 201) no_dns []) ''example.org'' [] =
     (Inr ''example.org:8448'',
      [HttpGet ''https://example.org/.well-known/matrix/server'' 0,
       LookupSRV ''matrix'' ''tcp'' ''example.org''])"
  by (simp add: resolveMatrixServer_def resolveSRV_def wellknown_url_def sample_world_def wellknown_web_def no_dns_def)

text \<open>
  C2.  When the well-known step does not return (the request fails, the status is not 200,
  the body does not decode, or \<open>m.server\<close> is empty) and \<^verbatim>\<open>net.LookupSRV\<close> returns no
  error and at least one record, then \<open>resolveMatrixServer\<close> returns, for the first
  record of the list that the lookup returns, its target with the trailing dot stripped,
  a colon, and its port in decimal.  The target of a record returned without error is a
  domain name; that is the third hypothesis.
\<close>

theorem resolveMatrixServer_srv:
  assumes "case http_get w h (''https://'' @ domain @ ''/.well-known/matrix/server'') 0 of
             Inl e \<Rightarrow> True
           | Inr resp \<Rightarrow> StatusCode resp \<noteq> 200 \<or>
                (case decode_server w (Body resp) of Inl e \<Rightarrow> True | Inr s \<Rightarrow> s = [])"
    and "lookup_srv w (h @ [HttpGet (''https://'' @ domain @ ''/.well-known/matrix/server'') 0])
           ''matrix'' ''tcp'' domain = (r # rs, None)"
    and "wellformed_target (Target r)"
  shows "resolveMatrixServer w domain h =
           (Inr (spec_strip_trailing_dot (Target r) @ '':'' @ string_of_nat (unat (Port r))),
            [HttpGet (''https://'' @ domain @ ''/.well-known/matrix/server'') 0,
             LookupSRV ''matrix'' ''tcp'' domain])"
  using assms(1,2) resolveMatrixServer_fallthrough[of w h domain] Trim_wellformed_target[OF assms(3)]
  by (simp add: wellknown_url_def resolveSRV_def)

theorem resolveMatrixServer_srv_witness:
  "http_get (sample_world down_web sorted_dns []) [] ''https://example.org/.well-known/matrix/server'' 0
     = Inl (Err ''connection refused'') \<and>
   lookup_srv (sample_world down_web sorted_dns []) [HttpGet ''https://example.org/.well-known/matrix/server'' 0]
     ''matrix'' ''tcp'' ''example.org''
     = ([\<lparr> Target = ''matrix.example.org.'', Port = 8448, Priority = 10, Weight = 0 \<rparr>,
         \<lparr> Target = ''backup.example.org.'', Port = 443, Priority = 20, Weight = 0 \<rparr>], None) \<and>
   wellformed_target ''matrix.example.org.'' \<and>
   resolveMatrixServer (sample_world down_web sorted_dns []) ''example.org'' [] =
     (Inr ''matrix.example.org:8448'',
      [HttpGet ''https://example.org/.well-known/matrix/server'' 0,
       LookupSRV ''matrix'' ''tcp'' ''example.org''])"
  using resolveMatrixServer_srv [of "sample_world down_web sorted_dns []" "[]" "''example.org''"
      "\<lparr> Target = ''matrix.example.org.'', Port = 8448, Priority = 10, Weight = 0 \<rparr>"
      "[\<lparr> Target = ''backup.example.org.'', Port = 443, Priority = 20, Weight = 0 \<rparr>]"]
  by (simp add: sample_world_def down_web_def sorted_dns_def priority_answer_def wellformed_target_def
      spec_strip_trailing_dot_def string_of_nat.simps)

text \<open>
  The claim C2 as it is written asks only that the query return at least one record, and
  takes the first record in the order of the server.  First world: the lookup returns a
  record together with an error, as \<^verbatim>\<open>net.LookupSRV\<close> does when it has removed a record
  with a malformed target; the code tests the error and falls back to \<open>example.org:8448\<close>.
  Second world: the server answers with the record of priority 20 before the record of
  priority 10, \<^verbatim>\<open>net.LookupSRV\<close> returns them sorted by priority, and the code uses the
  record of priority 10, which is not the first of the server's answer.
\<close>

theorem resolveMatrixServer_srv_counterexample:
  "http_get (sample_world down_web filtered_dns []) [] ''https://example.org/.well-known/matrix/server'' 0
     = Inl (Err ''connection refused'') \<and>
   lookup_srv (sample_world down_web filtered_dns []) [HttpGet ''https://example.org/.well-known/matrix/server'' 0]
     ''matrix'' ''tcp'' ''example.org''
     = ([\<lparr> Target = ''matrix.example.org.'', Port = 8448, Priority = 10, Weight = 0 \<rparr>],
        Some (Err ''DNS response contained records which contain invalid names'')) \<and>
   resolveMatrixServer (sample_world down_web filtered_dns []) ''example.org'' [] =
     (Inr ''example.org:8448'',
      [HttpGet ''https://example.org/.well-known/matrix/server'' 0,
       LookupSRV ''matrix'' ''tcp'' ''example.org'']) \<and>
   ''example.org:8448'' \<noteq>
     spec_strip_trailing_dot ''matrix.example.org.'' @ '':'' @ string_of_nat (unat (8448 :: 16 word)) \<and>
   hd priority_answer = \<lparr> Target = ''backup.example.org.'', Port = 443, Priority = 20, Weight = 0 \<rparr> \<and>
   lookup_srv (sample_world down_web sorted_dns []) [HttpGet ''https://example.org/.well-known/matrix/server'' 0]
     ''matrix'' ''tcp'' ''example.org''
     = ([\<lparr> Target = ''matrix.example.org.'', Port = 8448, Priority = 10, Weight = 0 \<rparr>,
         \<lparr> Target = ''backup.example.org.'', Port = 443, Priority = 20, Weight = 0 \<rparr>], None) \<and>
   fst (resolveMatrixServer (sample_world down_web sorted_dns []) ''example.org'' []) =
     Inr ''matrix.example.org:8448'' \<and>
   fst (resolveMatrixServer (sample_world down_web sorted_dns []) ''example.org'' []) \<noteq>
     Inr (spec_strip_trailing_dot (Target (hd priority_answer)) @ '':''
          @ string_of_nat (unat (Port (hd priority_answer))))"
  by (simp add: resolveMatrixServer_def resolveSRV_def wellknown_url_def sample_world_def
      down_web_def filtered_dns_def sorted_dns_def priority_answer_def strings_Trim_def
      spec_strip_trailing_dot_def string_of_nat.simps)

text \<open>
  C3.  For every domain and every world, \<open>resolveMatrixServer\<close> returns a target and no
  error; when the well-known step does not return and the SRV lookup gives an error or no
  record, the target is \<open>{domain}:8448\<close>.  Hence \<open>checkServer\<close> returns \<open>OK\<close> or
  \<open>Failed (Unreachable)\<close>, and never a text of the delegation-failure branch.
\<close>

theorem resolveMatrixServer_never_fails:
  "(\<exists>target es. resolveMatrixServer w domain h = (Inr target, es)) \<and>
   ((case http_get w h (''https://'' @ domain @ ''/.well-known/matrix/server'') 0 of
       Inl e \<Rightarrow> True
     | Inr resp \<Rightarrow> StatusCode resp \<noteq> 200 \<or>
          (case decode_server w (Body resp) of Inl e \<Rightarrow> True | Inr s \<Rightarrow> s = [])) \<and>
    (case lookup_srv w (h @ [HttpGet (''https://'' @ domain @ ''/.well-known/matrix/server'') 0])
            ''matrix'' ''tcp'' domain of
       (records, err) \<Rightarrow> err \<noteq> None \<or> records = [])
    \<longrightarrow> resolveMatrixServer w domain h =
          (Inr (domain @ '':8448''),
           [HttpGet (''https://'' @ domain @ ''/.well-known/matrix/server'') 0,
            LookupSRV ''matrix'' ''tcp'' domain])) \<and>
   (fst (checkServer w domain h) = ''OK'' \<or> fst (checkServer w domain h) = ''Failed (Unreachable)'') \<and>
   \<not> prefix ''Failed (Delegation Failed'' (fst (checkServer w domain h))"
proof (intro conjI impI)
  show "\<exists>target es. resolveMatrixServer w domain h = (Inr target, es)"
    by (rule resolveMatrixServer_Inr)
next
  assume a: "(case http_get w h (''https://'' @ domain @ ''/.well-known/matrix/server'') 0 of
       Inl e \<Rightarrow> True
     | Inr resp \<Rightarrow> StatusCode resp \<noteq> 200 \<or>
          (case decode_server w (Body resp) of Inl e \<Rightarrow> True | Inr s \<Rightarrow> s = [])) \<and>
    (case lookup_srv w (h @ [HttpGet (''https://'' @ domain @ ''/.well-known/matrix/server'') 0])
            ''matrix'' ''tcp'' domain of
       (records, err) \<Rightarrow> err \<noteq> None \<or> records = [])"
  then have "fst (resolveSRV w domain (h @ [HttpGet (wellknown_url domain) 0])) = Inr (domain @ '':8448'')"
    by (auto simp: resolveSRV_def wellknown_url_def split: prod.splits)
  with a show "resolveMatrixServer w domain h =
          (Inr (domain @ '':8448''),
           [HttpGet (''https://'' @ domain @ ''/.well-known/matrix/server'') 0,
            LookupSRV ''matrix'' ''tcp'' domain])"
    using resolveMatrixServer_fallthrough[of w h domain] by (simp add: wellknown_url_def)
next
  show c: "fst (checkServer w domain h) = ''OK'' \<or> fst (checkServer w domain h) = ''Failed (Unreachable)''"
    by (rule checkServer_cases)
  then show "\<not> prefix ''Failed (Delegation Failed'' (fst (checkServer w domain h))"
    by auto
qed

theorem resolveMatrixServer_never_fails_witness:
  "http_get (sample_world down_web no_dns []) [] ''https://example.org/.well-known/matrix/server'' 0
     = Inl (Err ''connection refused'') \<and>
   lookup_srv (sample_world down_web no_dns []) [HttpGet ''https://example.org/.well-known/matrix/server'' 0]
     ''matrix'' ''tcp'' ''example.org'' = ([], Some (Err ''no such host'')) \<and>
   resolveMatrixServer (sample_world down_web no_dns []) ''example.org'' [] =
     (Inr ''example.org:8448'',
      [HttpGet ''https://example.org/.well-known/matrix/server'' 0,
       LookupSRV ''matrix'' ''tcp'' ''example.org''])"
  using resolveMatrixServer_never_fails [of "sample_world down_web no_dns []" "''example.org''" "[]"]
  by (simp add: sample_world_def down_web_def no_dns_def)

text \<open>
  C6.  For every target, \<open>checkServerOnline\<close> makes one GET of
  \<open>https://{target}/_matrix/federation/v1/version\<close> on a client whose timeout is five
  seconds, and returns true exactly when that gives a response (no connection error and
  no timeout) and the first JSON value that the decoder reads from the body is an object
  or the value \<open>null\<close>; the text after that value is not read.  A connection error, a
  timeout, a syntax error and a value of any other kind give false.  Whatever the outcome,
  that request is the only call to the network: nothing is tried again.
\<close>

theorem checkServerOnline_object_or_null:
  "fst (checkServerOnline w target h) =
     (\<exists>resp kind rest.
        http_get w h (''https://'' @ target @ ''/_matrix/federation/v1/version'') (5 * Second) = Inr resp \<and>
        json_scan w (Body resp) = Inr (kind, rest) \<and> (kind = JObject \<or> kind = JNull)) \<and>
   filter is_network (snd (checkServerOnline w target h)) =
     [HttpGet (''https://'' @ target @ ''/_matrix/federation/v1/version'') (5 * Second)] \<and>
   5 * Second = 5000000000"
  by (auto simp: checkServerOnline_def decode_object_def version_url_def Second_def Let_def
      split: sum.splits option.splits prod.splits if_splits)

text \<open>
  The claim C6 as it is written has true only for a body that decodes as a JSON object.
  The body \<open>null\<close> is not an object, and the body \<open>{} trailing garbage\<close> is an object
  followed by text that is not JSON; for both the probe returns true.
\<close>

theorem checkServerOnline_not_object_counterexample:
  "http_get (sample_world odd_web no_dns []) [] ''https://null.org:8448/_matrix/federation/v1/version''
     (5 * Second) = Inr \<lparr> StatusCode = 200, Body = ''null'' \<rparr> \<and>
   json_scan (sample_world odd_web no_dns []) ''null'' = Inr (JNull, []) \<and>
   \<not> spec_json_object (sample_world odd_web no_dns []) ''null'' \<and>
   checkServerOnline (sample_world odd_web no_dns []) ''null.org:8448'' [] =
     (True, [HttpGet ''https://null.org:8448/_matrix/federation/v1/version'' (5 * Second)]) \<and>
   http_get (sample_world odd_web no_dns []) [] ''https://more.org:8448/_matrix/federation/v1/version''
     (5 * Second) = Inr \<lparr> StatusCode = 200, Body = ''{} trailing garbage'' \<rparr> \<and>
   json_scan (sample_world odd_web no_dns []) ''{} trailing garbage'' = Inr (JObject, '' trailing garbage'') \<and>
   \<not> spec_json_object (sample_world odd_web no_dns []) ''{} trailing garbage'' \<and>
   checkServerOnline (sample_world odd_web no_dns []) ''more.org:8448'' [] =
     (True, [HttpGet ''https://more.org:8448/_matrix/federation/v1/version'' (5 * Second)])"
  by (simp add: checkServerOnline_def decode_object_def spec_json_object_def is_json_space_def
      version_url_def Second_def sample_world_def odd_web_def Let_def)

text \<open>
  C10.  The status code of the response to the probe is not read.  Whenever a response is
  received and its body decodes as a JSON object, whatever the status code, the probe
  returns true and \<open>checkServer\<close> classifies the domain \<open>OK\<close>.  The witness is a response
  with status 404.
\<close>

theorem status_code_ignored:
  assumes "resolveMatrixServer w domain h = (Inr target, es)"
    and "http_get w (h @ es) (''https://'' @ target @ ''/_matrix/federation/v1/version'') (5 * Second)
           = Inr \<lparr> StatusCode = code, Body = body \<rparr>"
    and "decode_object w body = None"
  shows "checkServerOnline w target (h @ es) =
           (True, [HttpGet (''https://'' @ target @ ''/_matrix/federation/v1/version'') (5 * Second)]) \<and>
         checkServer w domain h =
           (''OK'', es @ [HttpGet (''https://'' @ target @ ''/_matrix/federation/v1/version'') (5 * Second)])"
  using assms by (simp add: checkServer_def checkServerOnline_def version_url_def Let_def)

theorem status_code_ignored_witness:
  "resolveMatrixServer (sample_world federation_web no_dns []) ''gone.org'' [] =
     (Inr ''gone.org:8448'',
      [HttpGet ''https://gone.org/.well-known/matrix/server'' 0, LookupSRV ''matrix'' ''tcp'' ''gone.org'']) \<and>
   http_get (sample_world federation_web no_dns [])
     [HttpGet ''https://gone.org/.well-known/matrix/server'' 0, LookupSRV ''matrix'' ''tcp'' ''gone.org'']
     ''https://gone.org:8448/_matrix/federation/v1/version'' (5 * Second)
     = Inr \<lparr> StatusCode = 404, Body = ''{errcode: M_NOT_FOUND}'' \<rparr> \<and>
   decode_object (sample_world federation_web no_dns []) ''{errcode: M_NOT_FOUND}'' = None \<and>
   checkServer (sample_world federation_web no_dns []) ''gone.org'' [] =
     (''OK'',
      [HttpGet ''https://gone.org/.well-known/matrix/server'' 0, LookupSRV ''matrix'' ''tcp'' ''gone.org'',
       HttpGet ''https://gone.org:8448/_matrix/federation/v1/version'' (5 * Second)])"
proof -
  have r: "resolveMatrixServer (sample_world federation_web no_dns []) ''gone.org'' [] =
     (Inr ''gone.org:8448'',
      [HttpGet ''https://gone.org/.well-known/matrix/server'' 0, LookupSRV ''matrix'' ''tcp'' ''gone.org''])"
    by (simp add: resolveMatrixServer_def resolveSRV_def wellknown_url_def sample_world_def
        federation_web_def no_dns_def)
  have g: "http_get (sample_world federation_web no_dns [])
     ([] @ [HttpGet ''https://gone.org/.well-known/matrix/server'' 0, LookupSRV ''matrix'' ''tcp'' ''gone.org''])
     (''https://'' @ ''gone.org:8448'' @ ''/_matrix/federation/v1/version'') (5 * Second)
     = Inr \<lparr> StatusCode = 404, Body = ''{errcode: M_NOT_FOUND}'' \<rparr>"
    by (simp add: sample_world_def federation_web_def)
  have d: "decode_object (sample_world federation_web no_dns []) ''{errcode: M_NOT_FOUND}'' = None"
    by (simp add: decode_object_def sample_world_def)
  from status_code_ignored [OF r g d] r g d show ?thesis
    by simp
qed

text \<open>
  C9.  The turn of the room loop for the log room only writes one line to the console: no
  state event and no member list is fetched, nothing is resolved or probed, and no message
  is sent.  In a whole sweep, whatever the list of joined rooms, no call to the Matrix
  client reads the log room (its members or its state), and the number of reports sent is
  at most the number of joined rooms other than the log room.
\<close>

theorem log_room_skipped:
  "sweepRoom config w (LogRoom config) h = [Print (''Skipping log room: '' @ LogRoom config @ newline)] \<and>
   sent (sweepRoom config w (LogRoom config) h) = [] \<and>
   filter (reads_room (LogRoom config)) (sweepRooms config w rooms h) = [] \<and>
   filter (reads_room (LogRoom config)) (sweepOnce config w h) = [] \<and>
   length (sent (sweepRooms config w rooms h)) \<le> length (filter (\<lambda>r. r \<noteq> LogRoom config) rooms)"
proof (intro conjI)
  show "sweepRoom config w (LogRoom config) h = [Print (''Skipping log room: '' @ LogRoom config @ newline)]"
    by (simp add: sweepRoom_def)
  then show "sent (sweepRoom config w (LogRoom config) h) = []"
    by simp
  show "filter (reads_room (LogRoom config)) (sweepRooms config w rooms h) = []"
    by (rule sweepRooms_reads)
  show "filter (reads_room (LogRoom config)) (sweepOnce config w h) = []"
    by (simp add: sweepOnce_def Let_def sweepRooms_reads split: sum.splits)
  show "length (sent (sweepRooms config w rooms h)) \<le> length (filter (\<lambda>r. r \<noteq> LogRoom config) rooms)"
    by (rule sweepRooms_sent_le)
qed

text \<open>
  C7.  For a room that is swept (it is not the log room and its member list is fetched),
  exactly one message is sent, and it goes to the log room.  The status list has one line
  \<open>domain - status\<close> per member, and the failure list is the status list without the
  lines whose status is \<open>OK\<close>.  When the failure list is empty the message is the line
  that says all servers of the room are OK; otherwise it is the heading with the room
  description followed by the lines of the failure list only.  The full status list is
  written to the console and is never the text of a message.
\<close>

theorem sweepRoom_one_message:
  assumes "roomID \<noteq> LogRoom config"
    and "getRoomDetails w roomID h = ((roomAlias, roomTitle), es1)"
    and "description = roomAlias @ '' - '' @ roomTitle @ '' ( '' @ roomID @ '' )''"
    and "es2 = es1 @ [Print (''Testing servers in room: '' @ description @ newline)]"
    and "joined_members w (h @ es2) roomID = Inr members"
    and "checkMembers w members [] [] (h @ es2 @ [JoinedMembers roomID]) = (serverStatus, failedServers, es4)"
  shows "\<exists>results.
           map fst results = map extractDomain members \<and>
           (\<forall>(d, s) \<in> set results. s = ''OK'' \<or> s = ''Failed (Unreachable)'') \<and>
           serverStatus = map (\<lambda>(d, s). d @ '' - '' @ s) results \<and>
           failedServers = map (\<lambda>(d, s). d @ '' - '' @ s) (filter (\<lambda>(d, s). s \<noteq> ''OK'') results) \<and>
           sent (sweepRoom config w roomID h) =
             [(LogRoom config,
               if failedServers = []
               then ''All Servers in room '' @ description @ '' are OK''
               else ''Failed servers in room '' @ description @ '':'' @ newline
                    @ strings_Join failedServers newline)] \<and>
           Print (''Server statuses in room '' @ description @ '':'' @ newline
                  @ strings_Join serverStatus newline @ newline) \<in> set (sweepRoom config w roomID h) \<and>
           (\<forall>r. (r, ''Server statuses in room '' @ description @ '':'' @ newline
                     @ strings_Join serverStatus newline) \<notin> set (sent (sweepRoom config w roomID h)))"
proof -
  obtain results es where
    c: "checkMembers w members [] [] (h @ es2 @ [JoinedMembers roomID]) =
          (map (\<lambda>(d, s). statusLine d s) results,
           map (\<lambda>(d, s). statusLine d s) (filter (\<lambda>(d, s). s \<noteq> ''OK'') results), es)"
    and f: "map fst results = map extractDomain members"
    and o: "\<forall>(d, s) \<in> set results. s = ''OK'' \<or> s = ''Failed (Unreachable)''"
    and m: "filter is_matrix_call es = []"
    using checkMembers_results[of w members "[]" "[]" "h @ es2 @ [JoinedMembers roomID]"] by auto
  have ss: "serverStatus = map (\<lambda>(d, s). d @ '' - '' @ s) results"
    and fs: "failedServers = map (\<lambda>(d, s). d @ '' - '' @ s) (filter (\<lambda>(d, s). s \<noteq> ''OK'') results)"
    and es: "es4 = es"
    using c assms(6) by (simp_all add: statusLine_def)
  have s1: "sent es1 = []"
    using getRoomDetails_events[of w roomID h] assms(2) by simp
  have s4: "sent es4 = []"
    using m es by (simp add: no_matrix_call_sent)
  have d: "roomDescription roomAlias roomTitle roomID = description"
    by (simp add: roomDescription_def assms(3))
  have run: "sweepRoom config w roomID h =
      es2 @ [JoinedMembers roomID] @ es4 @
      [Print (fullStatusMessage description serverStatus @ newline),
       SendText (LogRoom config)
         (if failedServers = [] then successMessage description
          else failedStatusMessage description failedServers)]"
    using assms(1,2,4,5,6) d
    by (simp add: sweepRoom_def Let_def reportRoom_def sendMessageToRoom_def)
  have snt: "sent (sweepRoom config w roomID h) =
      [(LogRoom config,
        if failedServers = [] then successMessage description
        else failedStatusMessage description failedServers)]"
    by (simp add: run sent_append s1 s4 assms(4))
  show ?thesis
  proof (intro exI[of _ results] conjI allI)
    show "map fst results = map extractDomain members" by (rule f)
    show "\<forall>(d, s) \<in> set results. s = ''OK'' \<or> s = ''Failed (Unreachable)''" by (rule o)
    show "serverStatus = map (\<lambda>(d, s). d @ '' - '' @ s) results" by (rule ss)
    show "failedServers = map (\<lambda>(d, s). d @ '' - '' @ s) (filter (\<lambda>(d, s). s \<noteq> ''OK'') results)"
      by (rule fs)
    show "sent (sweepRoom config w roomID h) =
             [(LogRoom config,
               if failedServers = []
               then ''All Servers in room '' @ description @ '' are OK''
               else ''Failed servers in room '' @ description @ '':'' @ newline
                    @ strings_Join failedServers newline)]"
      by (simp add: snt successMessage_def failedStatusMessage_def)
    show "Print (''Server statuses in room '' @ description @ '':'' @ newline
                  @ strings_Join serverStatus newline @ newline) \<in> set (sweepRoom config w roomID h)"
      by (simp add: run fullStatusMessage_def)
    show "(r, ''Server statuses in room '' @ description @ '':'' @ newline
                     @ strings_Join serverStatus newline) \<notin> set (sent (sweepRoom config w roomID h))" for r
      by (simp add: snt successMessage_def failedStatusMessage_def)
  qed
qed

theorem sweepRoom_one_message_witness:
  "''!a:x'' \<noteq> LogRoom sample_config \<and>
   joined_members (sample_world federation_web no_dns [''u1:good.org'', ''u2:bad.org''])
     [StateEvent ''!a:x'' ''m.room.name'', StateEvent ''!a:x'' ''m.room.canonical_alias'',
      Print (''No canonical alias found for room !a:x'' @ newline),
      Print (''Testing servers in room: !a:x - (unknown title) ( !a:x )'' @ newline)] ''!a:x''
     = Inr [''u1:good.org'', ''u2:bad.org''] \<and>
   sent (sweepRoom sample_config (sample_world federation_web no_dns [''u1:good.org'', ''u2:bad.org''])
           ''!a:x'' []) =
     [(''!log:x'',
       ''Failed servers in room !a:x - (unknown title) ( !a:x ):'' @ newline
       @ ''bad.org - Failed (Unreachable)'')]"
proof -
  let ?w = "sample_world federation_web no_dns [''u1:good.org'', ''u2:bad.org'']"
  let ?es1 = "[StateEvent ''!a:x'' ''m.room.name'', StateEvent ''!a:x'' ''m.room.canonical_alias'',
      Print (''No canonical alias found for room '' @ ''!a:x'' @ newline)]"
  let ?d = "''!a:x'' @ '' - '' @ ''(unknown title)'' @ '' ( '' @ ''!a:x'' @ '' )''"
  let ?es2 = "?es1 @ [Print (''Testing servers in room: '' @ ?d @ newline)]"
  have a1: "''!a:x'' \<noteq> LogRoom sample_config"
    by (simp add: sample_config_def)
  have a2: "getRoomDetails ?w ''!a:x'' [] = ((''!a:x'', ''(unknown title)''), ?es1)"
    by (rule sample_getRoomDetails)
  have a5: "joined_members ?w ([] @ ?es2) ''!a:x'' = Inr [''u1:good.org'', ''u2:bad.org'']"
    by (simp add: sample_world_def)
  have a6: "checkMembers ?w [''u1:good.org'', ''u2:bad.org''] [] [] ([] @ ?es2 @ [JoinedMembers ''!a:x'']) =
      ([''good.org - OK'', ''bad.org - Failed (Unreachable)''], [''bad.org - Failed (Unreachable)''],
       [HttpGet ''https://good.org/.well-known/matrix/server'' 0,
        LookupSRV ''matrix'' ''tcp'' ''good.org'',
        HttpGet ''https://good.org:8448/_matrix/federation/v1/version'' 5000000000,
        HttpGet ''https://bad.org/.well-known/matrix/server'' 0,
        LookupSRV ''matrix'' ''tcp'' ''bad.org'',
        HttpGet ''https://bad.org:8448/_matrix/federation/v1/version'' 5000000000,
        Print (''Failed to reach server bad.org:8448: connection refused'' @ newline)])"
    by (simp add: checkMember_def extractDomain_def statusLine_def strings_HasPrefix_def
        federation_checkServer_good federation_checkServer_bad)
  from sweepRoom_one_message [OF a1 a2 refl refl a5 a6] a1 a5 show ?thesis
    by (auto simp: sample_config_def)
qed

text \<open>
  C5.  The loop over the members has no test for an empty domain.  A member whose
  identifier has no \<open>:\<close> yields the empty domain, and the loop treats it as any other:
  the empty domain is resolved (the first event is the well-known request to the URL with
  an empty host), the resolved target is probed, and the line \<open> - status\<close> is added to the
  status list and, unless the status is \<open>OK\<close>, to the failure list.  Every member adds
  exactly one line to the status list.
\<close>

theorem empty_domain_is_checked:
  assumes "CHR '':'' \<notin> set userID"
  shows "extractDomain userID = [] \<and>
         checkMember w userID serverStatus failedServers h =
           (serverStatus @ ['' - '' @ fst (checkServer w [] h)],
            (if fst (checkServer w [] h) = ''OK'' then failedServers
             else failedServers @ ['' - '' @ fst (checkServer w [] h)]),
            snd (checkServer w [] h)) \<and>
         (\<exists>rest target.
            snd (checkServer w [] h) = HttpGet ''https:///.well-known/matrix/server'' 0 # rest \<and>
            HttpGet (''https://'' @ target @ ''/_matrix/federation/v1/version'') (5 * Second) \<in> set rest) \<and>
         length (fst (checkMembers w members serverStatus failedServers h)) =
           length serverStatus + length members"
proof (intro conjI)
  show e: "extractDomain userID = []"
    using assms by (rule extractDomain_no_colon)
  show "checkMember w userID serverStatus failedServers h =
           (serverStatus @ ['' - '' @ fst (checkServer w [] h)],
            (if fst (checkServer w [] h) = ''OK'' then failedServers
             else failedServers @ ['' - '' @ fst (checkServer w [] h)]),
            snd (checkServer w [] h))"
    by (simp add: checkMember_eq e statusLine_def)
  show "\<exists>rest target.
            snd (checkServer w [] h) = HttpGet ''https:///.well-known/matrix/server'' 0 # rest \<and>
            HttpGet (''https://'' @ target @ ''/_matrix/federation/v1/version'') (5 * Second) \<in> set rest"
    using checkServer_first_events[of w "[]" h] by (simp add: wellknown_url_def version_url_def)
  show "length (fst (checkMembers w members serverStatus failedServers h)) =
           length serverStatus + length members"
    by (rule checkMembers_length)
qed

theorem empty_domain_is_checked_witness:
  "CHR '':'' \<notin> set ''alice'' \<and>
   extractDomain ''alice'' = [] \<and>
   checkMember (sample_world down_web no_dns [''alice'']) ''alice'' [] [] [] =
     (['' - Failed (Unreachable)''], ['' - Failed (Unreachable)''],
      [HttpGet ''https:///.well-known/matrix/server'' 0,
       LookupSRV ''matrix'' ''tcp'' [],
       HttpGet ''https://:8448/_matrix/federation/v1/version'' 5000000000,
       Print (''Failed to reach server :8448: connection refused'' @ newline)])"
proof -
  have a: "CHR '':'' \<notin> set ''alice''"
    by simp
  from empty_domain_is_checked [OF a, of "sample_world down_web no_dns [''alice'']" "[]" "[]" "[]" "[]"] a
  show ?thesis
    by (simp add: down_checkServer)
qed

text \<open>
  The claim C5 as it is written has such a member excluded.  In a room whose only member
  is \<open>alice\<close>, in a world where nothing answers, the empty domain is resolved and probed,
  and its line is in the status list and in the message sent to the log room.
\<close>

theorem empty_domain_counterexample:
  "CHR '':'' \<notin> set ''alice'' \<and>
   extractDomain ''alice'' = [] \<and>
   joined_members (sample_world down_web no_dns [''alice''])
     [StateEvent ''!a:x'' ''m.room.name'', StateEvent ''!a:x'' ''m.room.canonical_alias'',
      Print (''No canonical alias found for room !a:x'' @ newline),
      Print (''Testing servers in room: !a:x - (unknown title) ( !a:x )'' @ newline)] ''!a:x''
     = Inr [''alice''] \<and>
   sweepRoom sample_config (sample_world down_web no_dns [''alice'']) ''!a:x'' [] =
     [StateEvent ''!a:x'' ''m.room.name'', StateEvent ''!a:x'' ''m.room.canonical_alias'',
      Print (''No canonical alias found for room !a:x'' @ newline),
      Print (''Testing servers in room: !a:x - (unknown title) ( !a:x )'' @ newline),
      JoinedMembers ''!a:x'',
      HttpGet ''https:///.well-known/matrix/server'' 0,
      LookupSRV ''matrix'' ''tcp'' [],
      HttpGet ''https://:8448/_matrix/federation/v1/version'' 5000000000,
      Print (''Failed to reach server :8448: connection refused'' @ newline),
      Print (''Server statuses in room !a:x - (unknown title) ( !a:x ):'' @ newline
             @ '' - Failed (Unreachable)'' @ newline),
      SendText ''!log:x''
        (''Failed servers in room !a:x - (unknown title) ( !a:x ):'' @ newline
         @ '' - Failed (Unreachable)'')]"
  by (simp add: sweepRoom_def sample_getRoomDetails roomDescription_def Let_def checkMember_def
      extractDomain_def statusLine_def strings_HasPrefix_def down_checkServer reportRoom_def
      sendMessageToRoom_def fullStatusMessage_def failedStatusMessage_def sample_config_def
      sample_joined_members)

text \<open>
  C8.  The failure list has one line per member whose check is not \<open>OK\<close>, in the order
  in which the members are visited, each made of the member's domain and the status.
  Nothing removes a domain that was seen before: a domain shared by several members whose
  checks fail is listed once for each of them.
\<close>

theorem failedServers_line_per_failing_member:
  "\<exists>statuses.
      length statuses = length members \<and>
      set statuses \<subseteq> {''OK'', ''Failed (Unreachable)''} \<and>
      fst (checkMembers w members [] [] h) =
        map (\<lambda>(d, s). d @ '' - '' @ s) (zip (map extractDomain members) statuses) \<and>
      fst (snd (checkMembers w members [] [] h)) =
        map (\<lambda>(d, s). d @ '' - '' @ s)
          (filter (\<lambda>(d, s). s \<noteq> ''OK'') (zip (map extractDomain members) statuses)) \<and>
      length (fst (snd (checkMembers w members [] [] h))) =
        length (filter (\<lambda>s. s \<noteq> ''OK'') statuses)"
proof -
  obtain results es where
    c: "checkMembers w members [] [] h =
          (map (\<lambda>(d, s). statusLine d s) results,
           map (\<lambda>(d, s). statusLine d s) (filter (\<lambda>(d, s). s \<noteq> ''OK'') results), es)"
    and f: "map fst results = map extractDomain members"
    and o: "\<forall>(d, s) \<in> set results. s = ''OK'' \<or> s = ''Failed (Unreachable)''"
    using checkMembers_results[of w members "[]" "[]" h] by auto
  have z: "zip (map extractDomain members) (map snd results) = results"
    using f zip_map_fst_snd[of results] by simp
  have l: "length (map snd results) = length members"
    using f by (metis length_map)
  have s: "set (map snd results) \<subseteq> {''OK'', ''Failed (Unreachable)''}"
    using o by auto
  have n: "length (filter (\<lambda>(d, s). s \<noteq> ''OK'') results) =
           length (filter (\<lambda>s. s \<noteq> ''OK'') (map snd results))"
    by (induction results) auto
  show ?thesis
    apply (rule exI[of _ "map snd results"])
    using l s n by (simp add: c z statusLine_def)
qed

text \<open>
  The claim C8 as it is written has no duplicate domain line.  With the two members
  \<open>@u1:bad.org\<close> and \<open>@u2:bad.org\<close> and an unreachable \<open>bad.org\<close>, the failure list and
  the message sent to the log room hold the line of \<open>bad.org\<close> twice.
\<close>

theorem duplicate_failure_lines_counterexample:
  "distinct [''@u1:bad.org'', ''@u2:bad.org''] \<and>
   extractDomain ''@u1:bad.org'' = ''bad.org'' \<and> extractDomain ''@u2:bad.org'' = ''bad.org'' \<and>
   fst (snd (checkMembers (sample_world down_web no_dns [''@u1:bad.org'', ''@u2:bad.org''])
                [''@u1:bad.org'', ''@u2:bad.org''] [] [] [])) =
     [''bad.org - Failed (Unreachable)'', ''bad.org - Failed (Unreachable)''] \<and>
   \<not> distinct (fst (snd (checkMembers (sample_world down_web no_dns [''@u1:bad.org'', ''@u2:bad.org''])
                          [''@u1:bad.org'', ''@u2:bad.org''] [] [] []))) \<and>
   sent (sweepRoom sample_config (sample_world down_web no_dns [''@u1:bad.org'', ''@u2:bad.org''])
           ''!a:x'' []) =
     [(''!log:x'',
       ''Failed servers in room !a:x - (unknown title) ( !a:x ):'' @ newline
       @ ''bad.org - Failed (Unreachable)'' @ newline @ ''bad.org - Failed (Unreachable)'')]"
  by (simp add: sweepRoom_def sample_getRoomDetails roomDescription_def Let_def checkMember_def
      extractDomain_def statusLine_def strings_HasPrefix_def down_checkServer reportRoom_def
      sendMessageToRoom_def fullStatusMessage_def failedStatusMessage_def sample_config_def
      sample_joined_members)

end
